theory Spec2Isabelle
  imports Main "HOL-Library.AList" "HOL-Library.Word"
begin

section \<open>DAOForge: proposals, votes and finalization\<close>

text \<open>
  A shallow embedding of \<^verbatim>\<open>src/DAOForge/src/index.ts\<close>. The two module-level
  collections (\<^verbatim>\<open>proposalStorage\<close> and \<^verbatim>\<open>members\<close>) form the state, which every
  exported function takes and returns. What the functions read from outside the module
  is passed in: the value of \<^verbatim>\<open>ic.time()\<close> as \<open>now\<close>, the value of \<^verbatim>\<open>uuidv4()\<close>
  as \<open>uuid\<close>.
\<close>

subsection \<open>Numbers\<close>

text \<open>
  \<^verbatim>\<open>votesFor\<close> and \<^verbatim>\<open>votesAgainst\<close> are TypeScript \<^verbatim>\<open>number\<close>s: IEEE 754
  doubles with a 53-bit significand. The counters start at 0 and only ever grow by
  \<^verbatim>\<open>+ 1\<close>, so they are modelled as natural numbers, and \<^verbatim>\<open>+\<close> as the exact sum
  rounded to the nearest double, ties to the even significand. Below \<open>2^53\<close> every
  natural number is a double and the sum is exact. (A sum beyond the largest finite
  double is \<^verbatim>\<open>Infinity\<close> in JavaScript; the model keeps the rounded number, which
  compares with the constants 2 and 3 in the same way.)
\<close>

text \<open>The distance between neighbouring doubles at \<open>n\<close>.\<close>

function num_ulp :: "nat \<Rightarrow> nat" where
  "num_ulp n = (if n < 2 ^ 53 then 1 else 2 * num_ulp (n div 2))"
  by pat_completeness auto
termination
  by (relation "measure (\<lambda>n. n)") auto

declare num_ulp.simps [simp del]

definition num_round :: "nat \<Rightarrow> nat" where
  "num_round n =
     (let u = num_ulp n; q = n div u; r = n mod u
      in if 2 * r < u then q * u
         else if u < 2 * r then (q + 1) * u
         else if even q then q * u else (q + 1) * u)"

definition num_add :: "nat \<Rightarrow> nat \<Rightarrow> nat" where
  "num_add a b = num_round (a + b)"

subsection \<open>Data model\<close>

datatype Status = Pending | Accepted | Rejected

type_synonym nat64 = "64 word"

record Proposal =
  id_prop :: string
  title :: string
  description :: string
  proposer :: string
  votesFor :: nat
  votesAgainst :: nat
  status :: Status
  createdAt :: nat64
  updatedAt :: "nat64 option"
  executionResult :: "string option"

text \<open>
  \<^verbatim>\<open>StableBTreeMap<string, Proposal>\<close> comes from the azle library. It is modelled
  as an association list with distinct keys: \<^verbatim>\<open>insert\<close> overwrites the entry of a
  key that is present and adds one otherwise, \<^verbatim>\<open>get\<close> looks a key up
  (\<^verbatim>\<open>undefined\<close> is \<open>None\<close>), \<^verbatim>\<open>values\<close> lists the stored records. The order of
  \<^verbatim>\<open>values\<close> and the size bounds given to the constructor belong to the library's
  stable-memory encoding and are not modelled; no theorem below depends on the order.
\<close>

type_synonym store = "(string \<times> Proposal) list"

definition btree_insert :: "string \<Rightarrow> Proposal \<Rightarrow> store \<Rightarrow> store" where
  "btree_insert k v m = AList.update k v m"

definition btree_get :: "store \<Rightarrow> string \<Rightarrow> Proposal option" where
  "btree_get m k = map_of m k"

definition btree_values :: "store \<Rightarrow> Proposal list" where
  "btree_values m = map snd m"

record dao =
  proposalStorage :: store
  members :: "string set"

definition initial :: dao where
  "initial = \<lparr>proposalStorage = [], members = {}\<rparr>"

subsection \<open>Operations\<close>

text \<open>The template literals \<^verbatim>\<open>${status}\<close> and \<^verbatim>\<open>${quorum}\<close>.\<close>

fun status_text :: "Status \<Rightarrow> string" where
  "status_text Pending = ''Pending''"
| "status_text Accepted = ''Accepted''"
| "status_text Rejected = ''Rejected''"

definition quorum :: nat where
  "quorum = 3"

definition threshold :: nat where
  "threshold = 2"

definition quorum_text :: string where
  "quorum_text = ''3''"

definition createProposal ::
  "string \<Rightarrow> nat64 \<Rightarrow> string \<Rightarrow> string \<Rightarrow> string \<Rightarrow> dao \<Rightarrow> string \<times> dao" where
  "createProposal uuid now proposer' title' description' st =
     (if proposer' \<notin> members st
      then (''Error: Only DAO members can create proposals'', st)
      else
        let proposalId = uuid;
            createdAt' = now;
            newProposal = \<lparr>id_prop = proposalId, title = title', description = description',
              proposer = proposer', votesFor = 0, votesAgainst = 0, status = Pending,
              createdAt = createdAt', updatedAt = None, executionResult = None\<rparr>
        in (''Proposal with id='' @ proposalId @ '' has been created by '' @ proposer',
            st\<lparr>proposalStorage := btree_insert proposalId newProposal (proposalStorage st)\<rparr>))"

definition voteOnProposal ::
  "nat64 \<Rightarrow> string \<Rightarrow> string \<Rightarrow> bool \<Rightarrow> dao \<Rightarrow> string \<times> dao" where
  "voteOnProposal now proposalId voter voteFor st =
     (if voter \<notin> members st
      then (''Error: Only DAO members can vote on proposals'', st)
      else case btree_get (proposalStorage st) proposalId of
        None \<Rightarrow> (''Proposal with id='' @ proposalId @ '' not found'', st)
      | Some proposal \<Rightarrow>
          if status proposal \<noteq> Pending
          then (''Proposal with id='' @ proposalId @ '' is no longer open for voting'', st)
          else
            let updatedVotesFor =
                  (if voteFor then num_add (votesFor proposal) 1 else votesFor proposal);
                updatedVotesAgainst =
                  (if \<not> voteFor then num_add (votesAgainst proposal) 1
                   else votesAgainst proposal);
                updatedProposal = proposal\<lparr>votesFor := updatedVotesFor,
                  votesAgainst := updatedVotesAgainst, updatedAt := Some now\<rparr>
            in (''Vote registered: '' @ (if voteFor then ''For'' else ''Against'')
                  @ '' for proposal id='' @ proposalId,
                st\<lparr>proposalStorage :=
                  btree_insert proposalId updatedProposal (proposalStorage st)\<rparr>))"

definition executeProposal :: "string \<Rightarrow> string" where
  "executeProposal proposalId = ''Proposal id='' @ proposalId @ '' executed successfully''"

definition finalizeProposal :: "nat64 \<Rightarrow> string \<Rightarrow> dao \<Rightarrow> string \<times> dao" where
  "finalizeProposal now proposalId st =
     (case btree_get (proposalStorage st) proposalId of
        None \<Rightarrow> (''Proposal with id='' @ proposalId @ '' not found'', st)
      | Some proposal \<Rightarrow>
          if status proposal \<noteq> Pending
          then (''Proposal with id='' @ proposalId @ '' has already been finalized'', st)
          else
            let totalVotes = num_add (votesFor proposal) (votesAgainst proposal)
            in if totalVotes < quorum
               then (''Proposal with id='' @ proposalId @ '' did not reach the quorum of ''
                       @ quorum_text @ '' votes'', st)
               else
                 let status' = (if threshold \<le> votesFor proposal then Accepted else Rejected);
                     executionResult' =
                       (if status' = Accepted then Some (executeProposal proposalId) else None);
                     finalizedProposal = proposal\<lparr>status := status', updatedAt := Some now,
                       executionResult := executionResult'\<rparr>
                 in (''Proposal with id='' @ proposalId @ '' has been '' @ status_text status',
                     st\<lparr>proposalStorage :=
                       btree_insert proposalId finalizedProposal (proposalStorage st)\<rparr>))"

definition addMember :: "string \<Rightarrow> string \<Rightarrow> dao \<Rightarrow> string \<times> dao" where
  "addMember admin newMember st =
     (''Member with address '' @ newMember @ '' has been added to the DAO'',
      st\<lparr>members := insert newMember (members st)\<rparr>)"

definition getAllProposals :: "dao \<Rightarrow> Proposal list" where
  "getAllProposals st = btree_values (proposalStorage st)"


subsection \<open>Sequences of calls\<close>

text \<open>
  A call of one of the six exported functions, with its arguments. An event is a call
  together with what \<^verbatim>\<open>uuidv4()\<close> and \<^verbatim>\<open>ic.time()\<close> would return during it;
  only \<open>createProposal\<close> reads the id, and the queries and \<open>addMember\<close> read
  neither.
\<close>

datatype call =
    CreateProposal string string string
  | VoteOnProposal string string bool
  | FinalizeProposal string
  | AddMember string string
  | GetAllProposals
  | GetProposalById string

type_synonym event = "string \<times> nat64 \<times> call"

fun exec :: "event \<Rightarrow> dao \<Rightarrow> dao" where
  "exec (uuid, now, CreateProposal proposer' title' description') st =
     snd (createProposal uuid now proposer' title' description' st)"
| "exec (uuid, now, VoteOnProposal proposalId voter voteFor) st =
     snd (voteOnProposal now proposalId voter voteFor st)"
| "exec (uuid, now, FinalizeProposal proposalId) st = snd (finalizeProposal now proposalId st)"
| "exec (uuid, now, AddMember admin newMember) st = snd (addMember admin newMember st)"
| "exec (uuid, now, GetAllProposals) st = st"
| "exec (uuid, now, GetProposalById proposalId) st = st"

fun run :: "event list \<Rightarrow> dao \<Rightarrow> dao" where
  "run [] st = st"
| "run (e # es) st = run es (exec e st)"



text \<open>
  The invariant of the data model: a stored proposal has an execution result exactly
  when it is accepted.
\<close>

definition result_iff_accepted :: "dao \<Rightarrow> bool" where
  "result_iff_accepted st =
     (\<forall>p \<in> set (getAllProposals st). (executionResult p \<noteq> None) = (status p = Accepted))"

subsection \<open>Sequences of votes\<close>

text \<open>
  A vote is a call of \<open>voteOnProposal\<close> with the clock value it reads. A vote is
  registered when the call returns the confirmation text; \<open>accepted_votes k\<close> counts
  the registered votes of a sequence on the proposal \<open>k\<close>.
\<close>

type_synonym vote = "nat64 \<times> string \<times> string \<times> bool"

definition vote_registered :: "nat64 \<Rightarrow> string \<Rightarrow> string \<Rightarrow> bool \<Rightarrow> dao \<Rightarrow> bool" where
  "vote_registered now proposalId voter voteFor st =
     (fst (voteOnProposal now proposalId voter voteFor st)
        = ''Vote registered: '' @ (if voteFor then ''For'' else ''Against'')
            @ '' for proposal id='' @ proposalId)"

fun cast_votes :: "vote list \<Rightarrow> dao \<Rightarrow> dao" where
  "cast_votes [] st = st"
| "cast_votes ((now, proposalId, voter, voteFor) # vs) st =
     cast_votes vs (snd (voteOnProposal now proposalId voter voteFor st))"

fun accepted_votes :: "string \<Rightarrow> vote list \<Rightarrow> dao \<Rightarrow> nat" where
  "accepted_votes k [] st = 0"
| "accepted_votes k ((now, proposalId, voter, voteFor) # vs) st =
     (if proposalId = k \<and> vote_registered now proposalId voter voteFor st then 1 else 0)
       + accepted_votes k vs (snd (voteOnProposal now proposalId voter voteFor st))"

text \<open>The registered votes on \<open>k\<close> in favour (\<open>b\<close> true) or against (\<open>b\<close> false).\<close>

fun accepted_dir :: "string \<Rightarrow> bool \<Rightarrow> vote list \<Rightarrow> dao \<Rightarrow> nat" where
  "accepted_dir k b [] st = 0"
| "accepted_dir k b ((now, proposalId, voter, voteFor) # vs) st =
     (if proposalId = k \<and> voteFor = b \<and> vote_registered now proposalId voter voteFor st
      then 1 else 0)
       + accepted_dir k b vs (snd (voteOnProposal now proposalId voter voteFor st))"

subsection \<open>Example states\<close>

text \<open>
  A DAO whose only member is \<open>alice\<close> and whose only proposal is \<open>p1\<close>, with the
  given counters, status, update time and execution result; and sequences of calls on it.
\<close>

definition demo_proposal ::
  "nat \<Rightarrow> nat \<Rightarrow> Status \<Rightarrow> nat64 option \<Rightarrow> string option \<Rightarrow> Proposal" where
  "demo_proposal f a s u r =
     \<lparr>id_prop = ''p1'', title = ''T'', description = ''D'', proposer = ''alice'',
      votesFor = f, votesAgainst = a, status = s, createdAt = 5, updatedAt = u,
      executionResult = r\<rparr>"

definition demo_dao :: "Proposal \<Rightarrow> dao" where
  "demo_dao p = \<lparr>proposalStorage = [(''p1'', p)], members = {''alice''}\<rparr>"

definition demo_events :: "event list" where
  "demo_events =
     [(''u0'', 1, AddMember ''root'' ''alice''),
      (''p1'', 5, CreateProposal ''alice'' ''T'' ''D''),
      (''u2'', 6, VoteOnProposal ''p1'' ''alice'' True),
      (''u3'', 7, VoteOnProposal ''p1'' ''alice'' False),
      (''u4'', 8, VoteOnProposal ''p1'' ''alice'' True),
      (''u5'', 9, FinalizeProposal ''p1'')]"


definition top_votes :: "vote list" where
  "top_votes = [(6, ''p1'', ''alice'', True), (7, ''p1'', ''alice'', False)]"

definition demo_votes :: "vote list" where
  "demo_votes =
     [(6, ''p1'', ''alice'', True),
      (7, ''p1'', ''mallory'', True),
      (8, ''p2'', ''alice'', False),
      (9, ''p1'', ''alice'', False)]"

section \<open>Properties of the model\<close>

subsection \<open>Number addition\<close>

lemma num_ulp_small: "n < 2 ^ 53 \<Longrightarrow> num_ulp n = 1"
  by (subst num_ulp.simps) simp

lemma num_ulp_large: "\<not> n < 2 ^ 53 \<Longrightarrow> num_ulp n = 2 * num_ulp (n div 2)"
  by (subst num_ulp.simps) simp

lemma num_ulp_pos: "0 < num_ulp n"
  by (induction n rule: num_ulp.induct) (subst num_ulp.simps, simp)

lemma num_round_exact: "n < 2 ^ 53 \<Longrightarrow> num_round n = n"
  by (simp add: num_round_def num_ulp_small)

lemma num_ulp_quot: "2 ^ 52 \<le> n \<Longrightarrow> 2 ^ 52 \<le> n div num_ulp n"
proof (induction n rule: num_ulp.induct)
  case (1 n)
  show ?case
  proof (cases "n < 2 ^ 53")
    case True
    with "1.prems" show ?thesis by (simp add: num_ulp_small)
  next
    case False
    then have "2 ^ 52 \<le> n div 2" by simp
    with "1.IH" False have "2 ^ 52 \<le> (n div 2) div num_ulp (n div 2)" by simp
    then show ?thesis using False by (simp add: num_ulp_large div_mult2_eq)
  qed
qed

lemma num_round_lower: "n div num_ulp n * num_ulp n \<le> num_round n"
  by (simp add: num_round_def Let_def)

lemma num_round_large:
  assumes "\<not> n < 2 ^ 53"
  shows "2 ^ 53 \<le> num_round n"
proof -
  from assms have "2 ^ 52 \<le> n div num_ulp n"
    by (intro num_ulp_quot) simp
  moreover from assms have "2 \<le> num_ulp n"
    using num_ulp_pos [of "n div 2"] by (simp add: num_ulp_large)
  ultimately have "2 ^ 52 * 2 \<le> n div num_ulp n * num_ulp n"
    by (rule mult_le_mono)
  then show ?thesis using num_round_lower [of n] by simp
qed

text \<open>Rounding cannot move a sum across the quorum.\<close>

lemma num_add_quorum: "num_add a b < quorum \<longleftrightarrow> a + b < 3"
proof (cases "a + b < 2 ^ 53")
  case True
  then show ?thesis by (simp add: num_add_def num_round_exact quorum_def)
next
  case False
  then have "2 ^ 53 \<le> num_add a b"
    unfolding num_add_def by (rule num_round_large)
  with False show ?thesis by (simp add: quorum_def)
qed

lemma num_round_pow53: "num_round (2 ^ 53) = 2 ^ 53"
  by (simp add: num_round_def num_ulp.simps)

lemma num_add_one: "n < 2 ^ 53 \<Longrightarrow> num_add n 1 = n + 1"
proof (cases "n + 1 < 2 ^ 53")
  case True
  then show ?thesis by (simp add: num_add_def num_round_exact)
next
  case False
  assume "n < 2 ^ 53"
  with False have "n + 1 = 2 ^ 53" by simp
  then show ?thesis by (simp only: num_add_def num_round_pow53)
qed

lemma num_add_Suc0: "n < 2 ^ 53 \<Longrightarrow> num_add n (Suc 0) = Suc n"
  using num_add_one [of n] by simp

text \<open>At \<open>2^53\<close> the next integer is a tie between two doubles and rounds back.\<close>

lemma num_add_one_top: "num_add (2 ^ 53) 1 = 2 ^ 53"
  by (simp add: num_add_def num_round_def num_ulp.simps)

lemma num_add_one_sat: "f \<le> 2 ^ 53 \<Longrightarrow> num_add f (Suc 0) = min (Suc f) (2 ^ 53)"
  using num_add_one [of f] num_add_one_top by (cases "f < 2 ^ 53") simp_all

subsection \<open>The store\<close>

lemma btree_get_insert:
  "btree_get (btree_insert k v m) = (btree_get m)(k \<mapsto> v)"
  by (rule ext) (simp add: btree_get_def btree_insert_def update_conv')


lemma btree_insert_values:
  "p \<in> set (btree_values (btree_insert k v m)) \<Longrightarrow> p = v \<or> p \<in> set (btree_values m)"
  unfolding btree_values_def btree_insert_def by (induction m) (auto split: if_splits)

lemma btree_get_values: "btree_get m k = Some p \<Longrightarrow> p \<in> set (btree_values m)"
  unfolding btree_get_def btree_values_def by (auto dest!: map_of_SomeD intro: rev_image_eqI)

subsection \<open>What each operation does to the stored proposals\<close>

lemma createProposal_values:
  "p \<in> set (getAllProposals (snd (createProposal uuid now proposer' title' description' st))) \<Longrightarrow>
   p \<in> set (getAllProposals st) \<or> (status p = Pending \<and> executionResult p = None)"
  by (auto simp: createProposal_def getAllProposals_def Let_def dest!: btree_insert_values
      split: if_splits)

lemma voteOnProposal_values:
  "p \<in> set (getAllProposals (snd (voteOnProposal now proposalId voter voteFor st))) \<Longrightarrow>
   \<exists>q \<in> set (getAllProposals st). status p = status q \<and> executionResult p = executionResult q"
proof (cases "voter \<in> members st \<and> (\<exists>q. btree_get (proposalStorage st) proposalId = Some q
    \<and> status q = Pending)")
  case False
  assume "p \<in> set (getAllProposals (snd (voteOnProposal now proposalId voter voteFor st)))"
  with False have "p \<in> set (getAllProposals st)"
    by (auto simp: voteOnProposal_def split: option.splits if_splits)
  then show ?thesis by blast
next
  case True
  then obtain q where q: "btree_get (proposalStorage st) proposalId = Some q" "status q = Pending"
    and v: "voter \<in> members st" by blast
  assume "p \<in> set (getAllProposals (snd (voteOnProposal now proposalId voter voteFor st)))"
  with q v have "p \<in> set (getAllProposals st)
      \<or> (status p = status q \<and> executionResult p = executionResult q)"
    by (auto simp: voteOnProposal_def getAllProposals_def dest!: btree_insert_values)
  moreover from q have "q \<in> set (getAllProposals st)"
    by (simp add: getAllProposals_def btree_get_values)
  ultimately show ?thesis by blast
qed

lemma finalizeProposal_values:
  "p \<in> set (getAllProposals (snd (finalizeProposal now proposalId st))) \<Longrightarrow>
   p \<in> set (getAllProposals st) \<or> (executionResult p \<noteq> None) = (status p = Accepted)"
  by (auto simp: finalizeProposal_def getAllProposals_def Let_def
      dest!: btree_insert_values split: if_splits option.splits)

lemma exec_result_iff_accepted:
  assumes "result_iff_accepted st"
  shows "result_iff_accepted (exec e st)"
proof -
  obtain uuid now c where e: "e = (uuid, now, c)" by (cases e)
  show ?thesis
  proof (cases c)
    case (CreateProposal proposer' title' description')
    with e assms show ?thesis
      unfolding result_iff_accepted_def by (auto dest!: createProposal_values)
  next
    case (VoteOnProposal proposalId voter voteFor)
    with e assms show ?thesis
      unfolding result_iff_accepted_def by (auto dest!: voteOnProposal_values)
  next
    case (FinalizeProposal proposalId)
    with e assms show ?thesis
      unfolding result_iff_accepted_def by (auto dest!: finalizeProposal_values)
  next
    case (AddMember admin newMember)
    with e assms show ?thesis
      by (simp add: result_iff_accepted_def addMember_def getAllProposals_def)
  qed (use e assms in simp_all)
qed

lemma run_result_iff_accepted:
  "result_iff_accepted st \<Longrightarrow> result_iff_accepted (run es st)"
  by (induction es arbitrary: st) (simp_all add: exec_result_iff_accepted)




subsection \<open>Votes\<close>

lemma vote_registered_iff:
  "vote_registered now proposalId voter voteFor st \<longleftrightarrow>
     voter \<in> members st
     \<and> (\<exists>p. btree_get (proposalStorage st) proposalId = Some p \<and> status p = Pending)"
  by (auto simp: vote_registered_def voteOnProposal_def split: option.splits)

lemma vote_unregistered:
  "\<not> vote_registered now proposalId voter voteFor st \<Longrightarrow>
   snd (voteOnProposal now proposalId voter voteFor st) = st"
  by (auto simp: vote_registered_iff voteOnProposal_def split: option.splits)

lemma vote_other:
  "proposalId \<noteq> k \<Longrightarrow>
   btree_get (proposalStorage (snd (voteOnProposal now proposalId voter voteFor st))) k
     = btree_get (proposalStorage st) k"
  by (auto simp: voteOnProposal_def btree_get_insert Let_def split: option.splits)

lemma vote_registered_step:
  assumes "voter \<in> members st"
    and "btree_get (proposalStorage st) proposalId = Some p"
    and "status p = Pending"
  shows "btree_get (proposalStorage (snd (voteOnProposal now proposalId voter voteFor st))) proposalId
    = Some (if voteFor then p\<lparr>votesFor := num_add (votesFor p) 1, updatedAt := Some now\<rparr>
            else p\<lparr>votesAgainst := num_add (votesAgainst p) 1, updatedAt := Some now\<rparr>)"
  using assms by (simp add: voteOnProposal_def btree_get_insert)

lemma accepted_votes_dir:
  "accepted_votes k vs st = accepted_dir k True vs st + accepted_dir k False vs st"
proof (induction vs arbitrary: st)
  case Nil
  then show ?case by simp
next
  case (Cons v vs)
  obtain now proposalId voter voteFor where v: "v = (now, proposalId, voter, voteFor)"
    by (cases v)
  from Cons.IH [of "snd (voteOnProposal now proposalId voter voteFor st)"] show ?case
    unfolding v by (cases voteFor) simp_all
qed

lemma cast_votes_pending:
  "btree_get (proposalStorage st) k = Some p \<Longrightarrow> status p = Pending \<Longrightarrow>
   accepted_dir k True vs st = 0 \<or> votesFor p + accepted_dir k True vs st \<le> 2 ^ 53 \<Longrightarrow>
   accepted_dir k False vs st = 0 \<or> votesAgainst p + accepted_dir k False vs st \<le> 2 ^ 53 \<Longrightarrow>
   \<exists>p'. btree_get (proposalStorage (cast_votes vs st)) k = Some p' \<and> status p' = Pending
     \<and> votesFor p' = votesFor p + accepted_dir k True vs st
     \<and> votesAgainst p' = votesAgainst p + accepted_dir k False vs st"
proof (induction vs arbitrary: st p)
  case Nil
  then show ?case by simp
next
  case (Cons v vs)
  obtain now proposalId voter voteFor where v: "v = (now, proposalId, voter, voteFor)"
    by (cases v)
  let ?st = "snd (voteOnProposal now proposalId voter voteFor st)"
  let ?for = "accepted_dir k True vs ?st"
  let ?against = "accepted_dir k False vs ?st"
  have cast: "cast_votes (v # vs) st = cast_votes vs ?st"
    by (simp add: v)
  show ?case
  proof (cases "proposalId = k \<and> vote_registered now proposalId voter voteFor st")
    case True
    then have member: "voter \<in> members st" and k: "proposalId = k"
      by (simp_all add: vote_registered_iff)
    let ?p = "if voteFor then p\<lparr>votesFor := num_add (votesFor p) 1, updatedAt := Some now\<rparr>
              else p\<lparr>votesAgainst := num_add (votesAgainst p) 1, updatedAt := Some now\<rparr>"
    have get: "btree_get (proposalStorage ?st) k = Some ?p"
      using vote_registered_step [OF member _ Cons.prems(2), of proposalId now voteFor]
        Cons.prems(1) k by simp
    have pending: "status ?p = Pending"
      using Cons.prems(2) by simp
    show ?thesis
    proof (cases voteFor)
      case True
      with v \<open>proposalId = k \<and> vote_registered now proposalId voter voteFor st\<close>
      have count: "accepted_dir k True (v # vs) st = 1 + ?for"
        "accepted_dir k False (v # vs) st = ?against"
        by auto
      from Cons.prems(3) have bound: "votesFor p + 1 + ?for \<le> 2 ^ 53"
        unfolding count by simp
      then have "votesFor p < 2 ^ 53" by simp
      with True have counters: "votesFor ?p = votesFor p + 1" "votesAgainst ?p = votesAgainst p"
        by (simp_all add: num_add_Suc0)
      from bound have "?for = 0 \<or> votesFor ?p + ?for \<le> 2 ^ 53"
        unfolding counters by simp
      moreover from Cons.prems(4)
      have "?against = 0 \<or> votesAgainst ?p + ?against \<le> 2 ^ 53"
        unfolding count counters .
      ultimately obtain p' where
        "btree_get (proposalStorage (cast_votes vs ?st)) k = Some p'" "status p' = Pending"
        "votesFor p' = votesFor ?p + ?for" "votesAgainst p' = votesAgainst ?p + ?against"
        using Cons.IH [OF get pending] by blast
      then show ?thesis
        unfolding count cast counters by simp
    next
      case False
      with v \<open>proposalId = k \<and> vote_registered now proposalId voter voteFor st\<close>
      have count: "accepted_dir k True (v # vs) st = ?for"
        "accepted_dir k False (v # vs) st = 1 + ?against"
        by auto
      from Cons.prems(4) have bound: "votesAgainst p + 1 + ?against \<le> 2 ^ 53"
        unfolding count by simp
      then have "votesAgainst p < 2 ^ 53" by simp
      with False have counters: "votesFor ?p = votesFor p"
        "votesAgainst ?p = votesAgainst p + 1"
        by (simp_all add: num_add_Suc0)
      from bound have "?against = 0 \<or> votesAgainst ?p + ?against \<le> 2 ^ 53"
        unfolding counters by simp
      moreover from Cons.prems(3)
      have "?for = 0 \<or> votesFor ?p + ?for \<le> 2 ^ 53"
        unfolding count counters .
      ultimately obtain p' where
        "btree_get (proposalStorage (cast_votes vs ?st)) k = Some p'" "status p' = Pending"
        "votesFor p' = votesFor ?p + ?for" "votesAgainst p' = votesAgainst ?p + ?against"
        using Cons.IH [OF get pending] by blast
      then show ?thesis
        unfolding count cast counters by simp
    qed
  next
    case False
    have get: "btree_get (proposalStorage ?st) k = Some p"
    proof (cases "proposalId = k")
      case True
      with False have "?st = st" by (simp add: vote_unregistered)
      with Cons.prems(1) show ?thesis by simp
    next
      case False
      with Cons.prems(1) show ?thesis by (simp add: vote_other)
    qed
    from v False have count: "accepted_dir k b (v # vs) st = accepted_dir k b vs ?st" for b
      by auto
    from Cons.prems(3,4) Cons.IH [OF get Cons.prems(2)] show ?thesis
      unfolding count cast by blast
  qed
qed

lemma cast_votes_closed:
  "btree_get (proposalStorage st) k = Some p \<Longrightarrow> status p \<noteq> Pending \<Longrightarrow>
   btree_get (proposalStorage (cast_votes vs st)) k = Some p \<and> accepted_votes k vs st = 0"
proof (induction vs arbitrary: st)
  case Nil
  then show ?case by simp
next
  case (Cons v vs)
  obtain now proposalId voter voteFor where v: "v = (now, proposalId, voter, voteFor)"
    by (cases v)
  let ?st = "snd (voteOnProposal now proposalId voter voteFor st)"
  from Cons.prems have no: "\<not> (proposalId = k \<and> vote_registered now proposalId voter voteFor st)"
    by (auto simp: vote_registered_iff)
  have "btree_get (proposalStorage ?st) k = Some p"
  proof (cases "proposalId = k")
    case True
    with no have "?st = st" by (simp add: vote_unregistered)
    with Cons.prems(1) show ?thesis by simp
  next
    case False
    with Cons.prems(1) show ?thesis by (simp add: vote_other)
  qed
  from Cons.IH [OF this Cons.prems(2)] v no show ?case
    by auto
qed


subsection \<open>The example states\<close>

lemma demo_fields:
  "votesFor (demo_proposal f a s u r) = f"
  "votesAgainst (demo_proposal f a s u r) = a"
  "status (demo_proposal f a s u r) = s"
  by (simp_all add: demo_proposal_def)

lemma demo_get: "btree_get (proposalStorage (demo_dao p)) ''p1'' = Some p"
  by (simp add: demo_dao_def btree_get_def)

lemma demo_create:
  "createProposal ''p1'' 5 ''alice'' ''T'' ''D'' (snd (addMember ''root'' ''alice'' initial))
     = (''Proposal with id=p1 has been created by alice'',
        demo_dao (demo_proposal 0 0 Pending None None))"
  by (simp add: initial_def addMember_def createProposal_def btree_insert_def demo_dao_def
      demo_proposal_def Let_def)

lemma demo_vote:
  "f < 2 ^ 53 \<Longrightarrow>
   voteOnProposal now ''p1'' ''alice'' True (demo_dao (demo_proposal f a Pending u None))
     = (''Vote registered: For for proposal id=p1'',
        demo_dao (demo_proposal (f + 1) a Pending (Some now) None))"
  "a < 2 ^ 53 \<Longrightarrow>
   voteOnProposal now ''p1'' ''alice'' False (demo_dao (demo_proposal f a Pending u None))
     = (''Vote registered: Against for proposal id=p1'',
        demo_dao (demo_proposal f (a + 1) Pending (Some now) None))"
  by (simp_all add: voteOnProposal_def btree_get_def btree_insert_def demo_dao_def
      demo_proposal_def num_add_Suc0)

lemma demo_vote_any:
  "voteOnProposal now ''p1'' ''alice'' voteFor (demo_dao (demo_proposal f a Pending u None))
     = (''Vote registered: '' @ (if voteFor then ''For'' else ''Against'') @ '' for proposal id=p1'',
        demo_dao (demo_proposal (if voteFor then num_add f 1 else f)
          (if voteFor then a else num_add a 1) Pending (Some now) None))"
  by (simp add: voteOnProposal_def btree_get_def btree_insert_def demo_dao_def demo_proposal_def)

lemma demo_vote_stranger:
  "voter \<noteq> ''alice'' \<Longrightarrow> voteOnProposal now proposalId voter voteFor (demo_dao p)
     = (''Error: Only DAO members can vote on proposals'', demo_dao p)"
  by (simp add: voteOnProposal_def demo_dao_def)

lemma demo_vote_missing:
  "proposalId \<noteq> ''p1'' \<Longrightarrow> voteOnProposal now proposalId ''alice'' voteFor (demo_dao p)
     = (''Proposal with id='' @ proposalId @ '' not found'', demo_dao p)"
  by (simp add: voteOnProposal_def demo_dao_def btree_get_def)

lemma demo_vote_closed:
  "status p \<noteq> Pending \<Longrightarrow> voteOnProposal now ''p1'' ''alice'' voteFor (demo_dao p)
     = (''Proposal with id=p1 is no longer open for voting'', demo_dao p)"
  by (simp add: voteOnProposal_def demo_dao_def btree_get_def)

lemmas demo_vote_simps = demo_vote_any demo_vote_stranger demo_vote_missing demo_vote_closed
  demo_fields num_add_Suc0

lemma demo_finalize:
  "3 \<le> f + a \<Longrightarrow> 2 \<le> f \<Longrightarrow>
   finalizeProposal now ''p1'' (demo_dao (demo_proposal f a Pending u None))
     = (''Proposal with id=p1 has been Accepted'',
        demo_dao (demo_proposal f a Accepted (Some now)
          (Some ''Proposal id=p1 executed successfully'')))"
  by (simp add: finalizeProposal_def num_add_quorum threshold_def btree_get_def btree_insert_def
      executeProposal_def demo_dao_def demo_proposal_def)

lemma run_demo_events:
  "run demo_events initial
     = demo_dao (demo_proposal 2 1 Accepted (Some 9) (Some ''Proposal id=p1 executed successfully''))"
  by (simp add: demo_events_def demo_create demo_vote demo_finalize numeral_2_eq_2 [symmetric])


lemma demo_votes_cast:
  "cast_votes demo_votes (demo_dao (demo_proposal 0 0 Pending None None))
     = demo_dao (demo_proposal 1 1 Pending (Some 9) None)"
  by (simp add: demo_votes_def demo_vote_simps)

lemma demo_votes_accepted:
  "accepted_votes ''p1'' demo_votes (demo_dao (demo_proposal 0 0 Pending None None)) = 2"
  by (simp add: demo_votes_def vote_registered_def demo_vote_simps)

lemma demo_votes_dir:
  "accepted_dir ''p1'' True demo_votes (demo_dao (demo_proposal 0 0 Pending None None)) = 1"
  "accepted_dir ''p1'' False demo_votes (demo_dao (demo_proposal 0 0 Pending None None)) = 1"
  by (simp_all add: demo_votes_def vote_registered_def demo_vote_simps)

lemma top_votes_cast:
  "f < 2 ^ 53 \<Longrightarrow> a < 2 ^ 53 \<Longrightarrow>
   cast_votes top_votes (demo_dao (demo_proposal f a Pending u None))
     = demo_dao (demo_proposal (f + 1) (a + 1) Pending (Some 7) None)"
  by (simp add: top_votes_def demo_vote_simps)

lemma top_votes_dir:
  "accepted_dir ''p1'' b top_votes (demo_dao (demo_proposal f a Pending u None)) = 1"
  by (cases b) (simp_all add: top_votes_def vote_registered_def demo_vote_simps)

text \<open>The same vote for \<open>p1\<close>, cast by \<open>alice\<close> \<open>n\<close> times.\<close>

lemma flood_cast:
  "f \<le> 2 ^ 53 \<Longrightarrow>
   cast_votes (replicate n (8, ''p1'', ''alice'', True))
       (demo_dao (demo_proposal f 0 Pending u None))
     = demo_dao (demo_proposal (min (f + n) (2 ^ 53)) 0 Pending
         (if n = 0 then u else Some 8) None)"
proof (induction n arbitrary: f u)
  case 0
  then show ?case by simp
next
  case (Suc n)
  have "min (Suc f) (2 ^ 53) \<le> (2 ^ 53 :: nat)" by simp
  from Suc.IH [OF this, of "Some 8"] Suc.prems show ?case
    by (simp add: demo_vote_any num_add_one_sat min_def)
qed

lemma flood_accepted:
  "accepted_votes ''p1'' (replicate n (8, ''p1'', ''alice'', True))
       (demo_dao (demo_proposal f 0 Pending u None)) = n"
  by (induction n arbitrary: f u) (simp_all add: vote_registered_def demo_vote_any)

section \<open>Theorems\<close>

subsection \<open>Finalization\<close>

text \<open>
  C1: for a stored proposal that is \<open>Pending\<close> and has \<open>votesFor + votesAgainst \<ge> 3\<close>,
  \<open>finalizeProposal\<close> compares the count \<open>votesFor\<close> itself with 2. From 2 on the
  proposal becomes \<open>Accepted\<close> and \<open>executionResult\<close> holds the text that
  \<open>executeProposal\<close> returns; below 2 it becomes \<open>Rejected\<close> and \<open>executionResult\<close>
  is null. In both cases \<open>updatedAt\<close> is the current time, every other field is kept,
  and the record is written back by one \<open>insert\<close> at its id.
\<close>

theorem finalizeProposal_decides:
  assumes "btree_get (proposalStorage st) proposalId = Some p"
    and "status p = Pending"
    and "3 \<le> votesFor p + votesAgainst p"
  shows "finalizeProposal now proposalId st =
    (if 2 \<le> votesFor p
     then (''Proposal with id='' @ proposalId @ '' has been Accepted'',
           st\<lparr>proposalStorage := btree_insert proposalId
             (p\<lparr>status := Accepted, updatedAt := Some now,
                executionResult := Some (executeProposal proposalId)\<rparr>) (proposalStorage st)\<rparr>)
     else (''Proposal with id='' @ proposalId @ '' has been Rejected'',
           st\<lparr>proposalStorage := btree_insert proposalId
             (p\<lparr>status := Rejected, updatedAt := Some now, executionResult := None\<rparr>)
             (proposalStorage st)\<rparr>))"
proof -
  from assms(3) have "\<not> num_add (votesFor p) (votesAgainst p) < quorum"
    by (simp add: num_add_quorum)
  with assms(1,2) show ?thesis
    by (simp add: finalizeProposal_def threshold_def)
qed

theorem finalizeProposal_decides_witness:
  "btree_get (proposalStorage (demo_dao (demo_proposal 2 1 Pending (Some 7) None))) ''p1''
     = Some (demo_proposal 2 1 Pending (Some 7) None)
   \<and> status (demo_proposal 2 1 Pending (Some 7) None) = Pending
   \<and> 3 \<le> votesFor (demo_proposal 2 1 Pending (Some 7) None)
          + votesAgainst (demo_proposal 2 1 Pending (Some 7) None)
   \<and> finalizeProposal 9 ''p1'' (demo_dao (demo_proposal 2 1 Pending (Some 7) None))
     = (''Proposal with id=p1 has been Accepted'',
        demo_dao (demo_proposal 2 1 Accepted (Some 9) (Some ''Proposal id=p1 executed successfully'')))
   \<and> finalizeProposal 9 ''p1'' (demo_dao (demo_proposal 1 2 Pending (Some 7) None))
     = (''Proposal with id=p1 has been Rejected'',
        demo_dao (demo_proposal 1 2 Rejected (Some 9) None))"
  using finalizeProposal_decides [of "demo_dao (demo_proposal 2 1 Pending (Some 7) None)" "''p1''"
      "demo_proposal 2 1 Pending (Some 7) None" 9]
    finalizeProposal_decides [of "demo_dao (demo_proposal 1 2 Pending (Some 7) None)" "''p1''"
      "demo_proposal 1 2 Pending (Some 7) None" 9]
  by (simp add: demo_dao_def demo_proposal_def btree_get_def btree_insert_def executeProposal_def)

text \<open>
  C2: for a stored proposal that is \<open>Pending\<close> and has \<open>votesFor + votesAgainst < 3\<close>,
  \<open>finalizeProposal\<close> returns the quorum text and the state it returns is the state it
  was given: the proposal is still \<open>Pending\<close> with the same counters, times and
  result, so the call can be repeated after more votes.
\<close>

theorem finalizeProposal_quorum_not_met:
  assumes "btree_get (proposalStorage st) proposalId = Some p"
    and "status p = Pending"
    and "votesFor p + votesAgainst p < 3"
  shows "finalizeProposal now proposalId st =
    (''Proposal with id='' @ proposalId @ '' did not reach the quorum of 3 votes'', st)"
  using assms by (simp add: finalizeProposal_def num_add_quorum quorum_text_def)

theorem finalizeProposal_quorum_not_met_witness:
  "btree_get (proposalStorage (demo_dao (demo_proposal 2 0 Pending (Some 7) None))) ''p1''
     = Some (demo_proposal 2 0 Pending (Some 7) None)
   \<and> status (demo_proposal 2 0 Pending (Some 7) None) = Pending
   \<and> votesFor (demo_proposal 2 0 Pending (Some 7) None)
       + votesAgainst (demo_proposal 2 0 Pending (Some 7) None) < 3
   \<and> finalizeProposal 9 ''p1'' (demo_dao (demo_proposal 2 0 Pending (Some 7) None))
     = (''Proposal with id=p1 did not reach the quorum of 3 votes'',
        demo_dao (demo_proposal 2 0 Pending (Some 7) None))"
  using finalizeProposal_quorum_not_met [of "demo_dao (demo_proposal 2 0 Pending (Some 7) None)"
      "''p1''" "demo_proposal 2 0 Pending (Some 7) None" 9]
  by (simp add: demo_dao_def demo_proposal_def btree_get_def)

subsection \<open>Invariants of the proposal lifecycle\<close>

text \<open>
  C3: in every state that a sequence of calls of the exported functions reaches from the
  empty DAO, every stored proposal has a non-null \<open>executionResult\<close> if and only if its
  status is \<open>Accepted\<close>.
\<close>

theorem executionResult_iff_Accepted:
  assumes "p \<in> set (getAllProposals (run es initial))"
  shows "(executionResult p \<noteq> None) = (status p = Accepted)"
proof -
  have "result_iff_accepted initial"
    by (simp add: result_iff_accepted_def initial_def getAllProposals_def btree_values_def)
  then have "result_iff_accepted (run es initial)"
    by (rule run_result_iff_accepted)
  with assms show ?thesis by (simp add: result_iff_accepted_def)
qed

theorem executionResult_iff_Accepted_witness:
  "demo_proposal 2 1 Accepted (Some 9) (Some ''Proposal id=p1 executed successfully'')
     \<in> set (getAllProposals (run demo_events initial))
   \<and> (executionResult
        (demo_proposal 2 1 Accepted (Some 9) (Some ''Proposal id=p1 executed successfully'')) \<noteq> None)
     = (status (demo_proposal 2 1 Accepted (Some 9) (Some ''Proposal id=p1 executed successfully''))
        = Accepted)"
  using executionResult_iff_Accepted [of
      "demo_proposal 2 1 Accepted (Some 9) (Some ''Proposal id=p1 executed successfully'')"
      demo_events]
  by (simp add: run_demo_events getAllProposals_def btree_values_def demo_dao_def)




subsection \<open>Voting\<close>

text \<open>
  C5, as amended: for a member voter and a stored proposal that is \<open>Pending\<close>, when the
  counter to be incremented is below \<open>2^53\<close>, \<open>voteOnProposal\<close> adds exactly 1 to
  \<open>votesFor\<close> (when \<open>voteFor\<close> is true) or to \<open>votesAgainst\<close> (when it is false),
  sets \<open>updatedAt\<close> to the current time, keeps every other field, and writes the record
  back by one \<open>insert\<close> at the same id.
\<close>

theorem voteOnProposal_counts:
  assumes "voter \<in> members st"
    and "btree_get (proposalStorage st) proposalId = Some p"
    and "status p = Pending"
    and "if voteFor then votesFor p < 2 ^ 53 else votesAgainst p < 2 ^ 53"
  shows "voteOnProposal now proposalId voter voteFor st =
    (''Vote registered: '' @ (if voteFor then ''For'' else ''Against'')
       @ '' for proposal id='' @ proposalId,
     st\<lparr>proposalStorage := btree_insert proposalId
       (if voteFor then p\<lparr>votesFor := votesFor p + 1, updatedAt := Some now\<rparr>
        else p\<lparr>votesAgainst := votesAgainst p + 1, updatedAt := Some now\<rparr>)
       (proposalStorage st)\<rparr>)"
  using assms by (simp add: voteOnProposal_def num_add_Suc0 split: if_splits)

theorem voteOnProposal_counts_witness:
  "''alice'' \<in> members (demo_dao (demo_proposal 1 1 Pending (Some 7) None))
   \<and> btree_get (proposalStorage (demo_dao (demo_proposal 1 1 Pending (Some 7) None))) ''p1''
       = Some (demo_proposal 1 1 Pending (Some 7) None)
   \<and> status (demo_proposal 1 1 Pending (Some 7) None) = Pending
   \<and> votesFor (demo_proposal 1 1 Pending (Some 7) None) < 2 ^ 53
   \<and> votesAgainst (demo_proposal 1 1 Pending (Some 7) None) < 2 ^ 53
   \<and> voteOnProposal 8 ''p1'' ''alice'' True (demo_dao (demo_proposal 1 1 Pending (Some 7) None))
       = (''Vote registered: For for proposal id=p1'',
          demo_dao (demo_proposal 2 1 Pending (Some 8) None))
   \<and> voteOnProposal 8 ''p1'' ''alice'' False (demo_dao (demo_proposal 1 1 Pending (Some 7) None))
       = (''Vote registered: Against for proposal id=p1'',
          demo_dao (demo_proposal 1 2 Pending (Some 8) None))"
  using voteOnProposal_counts [of "''alice''" "demo_dao (demo_proposal 1 1 Pending (Some 7) None)"
      "''p1''" "demo_proposal 1 1 Pending (Some 7) None" True 8]
    voteOnProposal_counts [of "''alice''" "demo_dao (demo_proposal 1 1 Pending (Some 7) None)"
      "''p1''" "demo_proposal 1 1 Pending (Some 7) None" False 8]
  by (simp add: demo_dao_def demo_proposal_def btree_get_def btree_insert_def)

text \<open>
  C5 as stated fails at \<open>votesFor = 2^53 = 9007199254740992\<close>: the member's vote in
  favour is registered, and the stored \<open>votesFor\<close> is still \<open>2^53\<close>, because
  \<^verbatim>\<open>proposal.votesFor + 1\<close> is an addition of doubles.
\<close>

theorem voteOnProposal_counts_counterexample:
  "''alice'' \<in> members (demo_dao (demo_proposal (2 ^ 53) 0 Pending None None))
   \<and> btree_get (proposalStorage (demo_dao (demo_proposal (2 ^ 53) 0 Pending None None))) ''p1''
       = Some (demo_proposal (2 ^ 53) 0 Pending None None)
   \<and> status (demo_proposal (2 ^ 53) 0 Pending None None) = Pending
   \<and> voteOnProposal 8 ''p1'' ''alice'' True (demo_dao (demo_proposal (2 ^ 53) 0 Pending None None))
       = (''Vote registered: For for proposal id=p1'',
          demo_dao (demo_proposal (2 ^ 53) 0 Pending (Some 8) None))
   \<and> votesFor (demo_proposal (2 ^ 53) 0 Pending (Some 8) None)
       \<noteq> votesFor (demo_proposal (2 ^ 53) 0 Pending None None) + 1"
  using num_add_one_top
  by (simp add: voteOnProposal_def demo_dao_def demo_proposal_def btree_get_def btree_insert_def)

text \<open>
  C6: \<open>voteOnProposal\<close> checks in this order. A voter who is not a member gets the
  members-only text, whether or not the proposal exists; a member voting on an id that
  is not stored gets the not-found text; a member voting on a stored proposal that is not
  \<open>Pending\<close> gets the voting-closed text. In each of the three cases the returned state
  is the state given: the store and every stored proposal are unchanged.
\<close>

theorem voteOnProposal_failures:
  "(voter \<notin> members st \<longrightarrow>
      voteOnProposal now proposalId voter voteFor st
        = (''Error: Only DAO members can vote on proposals'', st))
   \<and> (voter \<in> members st \<and> btree_get (proposalStorage st) proposalId = None \<longrightarrow>
      voteOnProposal now proposalId voter voteFor st
        = (''Proposal with id='' @ proposalId @ '' not found'', st))
   \<and> (voter \<in> members st \<and> btree_get (proposalStorage st) proposalId = Some p
        \<and> status p \<noteq> Pending \<longrightarrow>
      voteOnProposal now proposalId voter voteFor st
        = (''Proposal with id='' @ proposalId @ '' is no longer open for voting'', st))"
  by (simp add: voteOnProposal_def)

theorem voteOnProposal_failures_witness:
  "''mallory'' \<notin> members (demo_dao (demo_proposal 1 2 Rejected (Some 7) None))
   \<and> voteOnProposal 9 ''p2'' ''mallory'' True (demo_dao (demo_proposal 1 2 Rejected (Some 7) None))
       = (''Error: Only DAO members can vote on proposals'',
          demo_dao (demo_proposal 1 2 Rejected (Some 7) None))
   \<and> ''alice'' \<in> members (demo_dao (demo_proposal 1 2 Rejected (Some 7) None))
   \<and> btree_get (proposalStorage (demo_dao (demo_proposal 1 2 Rejected (Some 7) None))) ''p2'' = None
   \<and> voteOnProposal 9 ''p2'' ''alice'' True (demo_dao (demo_proposal 1 2 Rejected (Some 7) None))
       = (''Proposal with id=p2 not found'', demo_dao (demo_proposal 1 2 Rejected (Some 7) None))
   \<and> btree_get (proposalStorage (demo_dao (demo_proposal 1 2 Rejected (Some 7) None))) ''p1''
       = Some (demo_proposal 1 2 Rejected (Some 7) None)
   \<and> status (demo_proposal 1 2 Rejected (Some 7) None) \<noteq> Pending
   \<and> voteOnProposal 9 ''p1'' ''alice'' True (demo_dao (demo_proposal 1 2 Rejected (Some 7) None))
       = (''Proposal with id=p1 is no longer open for voting'',
          demo_dao (demo_proposal 1 2 Rejected (Some 7) None))"
  using voteOnProposal_failures [of "''mallory''" "demo_dao (demo_proposal 1 2 Rejected (Some 7) None)"
      9 "''p2''" True "demo_proposal 1 2 Rejected (Some 7) None"]
    voteOnProposal_failures [of "''alice''" "demo_dao (demo_proposal 1 2 Rejected (Some 7) None)"
      9 "''p2''" True "demo_proposal 1 2 Rejected (Some 7) None"]
    voteOnProposal_failures [of "''alice''" "demo_dao (demo_proposal 1 2 Rejected (Some 7) None)"
      9 "''p1''" True "demo_proposal 1 2 Rejected (Some 7) None"]
  by (simp add: demo_dao_def demo_proposal_def btree_get_def)

text \<open>
  C9, as amended: for a stored proposal that is \<open>Pending\<close> and any sequence of
  \<open>voteOnProposal\<close> calls, as long as each counter that receives a vote stays within
  \<open>2^53\<close>, the proposal is still stored and \<open>Pending\<close> afterwards, \<open>votesFor\<close> has
  grown by the number of registered votes in favour and \<open>votesAgainst\<close> by the number
  of registered votes against, so that \<open>votesFor + votesAgainst\<close> has grown by the
  number of calls on it that were registered, one per registered vote. On a proposal that
  is not \<open>Pending\<close> no vote is registered and the record stays as it is.
\<close>

theorem votes_total_counts_accepted:
  assumes "btree_get (proposalStorage st) k = Some p"
  shows "(status p = Pending
          \<and> (accepted_dir k True vs st = 0
               \<or> votesFor p + accepted_dir k True vs st \<le> 2 ^ 53)
          \<and> (accepted_dir k False vs st = 0
               \<or> votesAgainst p + accepted_dir k False vs st \<le> 2 ^ 53) \<longrightarrow>
           (\<exists>p'. btree_get (proposalStorage (cast_votes vs st)) k = Some p' \<and> status p' = Pending
              \<and> votesFor p' = votesFor p + accepted_dir k True vs st
              \<and> votesAgainst p' = votesAgainst p + accepted_dir k False vs st
              \<and> votesFor p' + votesAgainst p'
                = votesFor p + votesAgainst p + accepted_votes k vs st))
         \<and> (status p \<noteq> Pending \<longrightarrow>
              btree_get (proposalStorage (cast_votes vs st)) k = Some p
              \<and> accepted_votes k vs st = 0)"
proof (intro conjI impI)
  assume "status p = Pending
    \<and> (accepted_dir k True vs st = 0 \<or> votesFor p + accepted_dir k True vs st \<le> 2 ^ 53)
    \<and> (accepted_dir k False vs st = 0 \<or> votesAgainst p + accepted_dir k False vs st \<le> 2 ^ 53)"
  with assms obtain p' where
    "btree_get (proposalStorage (cast_votes vs st)) k = Some p'" "status p' = Pending"
    "votesFor p' = votesFor p + accepted_dir k True vs st"
    "votesAgainst p' = votesAgainst p + accepted_dir k False vs st"
    using cast_votes_pending [of st k p vs] by blast
  then show "\<exists>p'. btree_get (proposalStorage (cast_votes vs st)) k = Some p' \<and> status p' = Pending
      \<and> votesFor p' = votesFor p + accepted_dir k True vs st
      \<and> votesAgainst p' = votesAgainst p + accepted_dir k False vs st
      \<and> votesFor p' + votesAgainst p' = votesFor p + votesAgainst p + accepted_votes k vs st"
    by (simp add: accepted_votes_dir)
next
  assume "status p \<noteq> Pending"
  with assms show "btree_get (proposalStorage (cast_votes vs st)) k = Some p"
    and "accepted_votes k vs st = 0"
    using cast_votes_closed [of st k p vs] by simp_all
qed

theorem votes_total_counts_accepted_witness:
  "btree_get (proposalStorage (demo_dao (demo_proposal 0 0 Pending None None))) ''p1''
     = Some (demo_proposal 0 0 Pending None None)
   \<and> status (demo_proposal 0 0 Pending None None) = Pending
   \<and> votesFor (demo_proposal 0 0 Pending None None)
       + accepted_dir ''p1'' True demo_votes (demo_dao (demo_proposal 0 0 Pending None None))
       \<le> 2 ^ 53
   \<and> votesAgainst (demo_proposal 0 0 Pending None None)
       + accepted_dir ''p1'' False demo_votes (demo_dao (demo_proposal 0 0 Pending None None))
       \<le> 2 ^ 53
   \<and> accepted_votes ''p1'' demo_votes (demo_dao (demo_proposal 0 0 Pending None None)) = 2
   \<and> btree_get (proposalStorage
        (cast_votes demo_votes (demo_dao (demo_proposal 0 0 Pending None None)))) ''p1''
       = Some (demo_proposal 1 1 Pending (Some 9) None)
   \<and> votesFor (demo_proposal 1 1 Pending (Some 9) None)
       + votesAgainst (demo_proposal 1 1 Pending (Some 9) None) = 2
   \<and> votesFor (demo_proposal (2 ^ 53 - 1) (2 ^ 53 - 1) Pending None None)
       + accepted_dir ''p1'' True top_votes
           (demo_dao (demo_proposal (2 ^ 53 - 1) (2 ^ 53 - 1) Pending None None))
       \<le> 2 ^ 53
   \<and> votesAgainst (demo_proposal (2 ^ 53 - 1) (2 ^ 53 - 1) Pending None None)
       + accepted_dir ''p1'' False top_votes
           (demo_dao (demo_proposal (2 ^ 53 - 1) (2 ^ 53 - 1) Pending None None))
       \<le> 2 ^ 53
   \<and> btree_get (proposalStorage (cast_votes top_votes
        (demo_dao (demo_proposal (2 ^ 53 - 1) (2 ^ 53 - 1) Pending None None)))) ''p1''
       = Some (demo_proposal (2 ^ 53) (2 ^ 53) Pending (Some 7) None)
   \<and> btree_get (proposalStorage (demo_dao (demo_proposal 0 3 Rejected (Some 5) None))) ''p1''
       = Some (demo_proposal 0 3 Rejected (Some 5) None)
   \<and> status (demo_proposal 0 3 Rejected (Some 5) None) \<noteq> Pending
   \<and> btree_get (proposalStorage
        (cast_votes demo_votes (demo_dao (demo_proposal 0 3 Rejected (Some 5) None)))) ''p1''
       = Some (demo_proposal 0 3 Rejected (Some 5) None)
   \<and> accepted_votes ''p1'' demo_votes (demo_dao (demo_proposal 0 3 Rejected (Some 5) None)) = 0"
proof -
  let ?open = "demo_proposal 0 0 Pending None None"
  let ?top = "demo_proposal (2 ^ 53 - 1) (2 ^ 53 - 1) Pending None None"
  let ?closed = "demo_proposal 0 3 Rejected (Some 5) None"
  have get_open: "btree_get (proposalStorage (demo_dao ?open)) ''p1'' = Some ?open"
    and get_top: "btree_get (proposalStorage (demo_dao ?top)) ''p1'' = Some ?top"
    and get_closed: "btree_get (proposalStorage (demo_dao ?closed)) ''p1'' = Some ?closed"
    by (rule demo_get)+
  have pending: "status ?open = Pending" "status ?top = Pending"
    and rejected: "status ?closed \<noteq> Pending"
    by (simp_all add: demo_proposal_def)
  have bound_open:
    "votesFor ?open + accepted_dir ''p1'' True demo_votes (demo_dao ?open) \<le> 2 ^ 53"
    "votesAgainst ?open + accepted_dir ''p1'' False demo_votes (demo_dao ?open) \<le> 2 ^ 53"
    by (simp_all add: demo_votes_dir demo_fields)
  have bound_top:
    "votesFor ?top + accepted_dir ''p1'' True top_votes (demo_dao ?top) \<le> 2 ^ 53"
    "votesAgainst ?top + accepted_dir ''p1'' False top_votes (demo_dao ?top) \<le> 2 ^ 53"
    by (simp_all add: top_votes_dir demo_fields)
  have after_open: "btree_get (proposalStorage (cast_votes demo_votes (demo_dao ?open))) ''p1''
      = Some (demo_proposal 1 1 Pending (Some 9) None)"
    by (simp only: demo_votes_cast demo_get)
  have after_top: "btree_get (proposalStorage (cast_votes top_votes (demo_dao ?top))) ''p1''
      = Some (demo_proposal (2 ^ 53) (2 ^ 53) Pending (Some 7) None)"
    by (simp add: top_votes_cast demo_get)
  have total: "votesFor (demo_proposal 1 1 Pending (Some 9) None)
      + votesAgainst (demo_proposal 1 1 Pending (Some 9) None) = 2"
    by (simp add: demo_proposal_def)
  from votes_total_counts_accepted [OF get_closed, of demo_votes] rejected
  have "btree_get (proposalStorage (cast_votes demo_votes (demo_dao ?closed))) ''p1''
      = Some ?closed"
    and "accepted_votes ''p1'' demo_votes (demo_dao ?closed) = 0"
    by blast+
  with votes_total_counts_accepted [OF get_open, of demo_votes]
    votes_total_counts_accepted [OF get_top, of top_votes]
    get_open get_closed pending rejected bound_open bound_top after_open after_top total
    demo_votes_accepted
  show ?thesis by blast
qed

text \<open>
  C9 as stated fails for the proposal \<open>p1\<close> with no votes yet and \<open>2^53 + 1\<close> votes in
  favour by the member \<open>alice\<close>: every call is registered, and the stored total is
  \<open>2^53\<close>.
\<close>

theorem votes_total_counts_accepted_counterexample:
  "btree_get (proposalStorage (demo_dao (demo_proposal 0 0 Pending None None))) ''p1''
     = Some (demo_proposal 0 0 Pending None None)
   \<and> status (demo_proposal 0 0 Pending None None) = Pending
   \<and> votesFor (demo_proposal 0 0 Pending None None)
       + votesAgainst (demo_proposal 0 0 Pending None None) = 0
   \<and> accepted_votes ''p1'' (replicate (2 ^ 53 + 1) (8, ''p1'', ''alice'', True))
        (demo_dao (demo_proposal 0 0 Pending None None)) = 2 ^ 53 + 1
   \<and> btree_get (proposalStorage
        (cast_votes (replicate (2 ^ 53 + 1) (8, ''p1'', ''alice'', True))
          (demo_dao (demo_proposal 0 0 Pending None None)))) ''p1''
       = Some (demo_proposal (2 ^ 53) 0 Pending (Some 8) None)
   \<and> votesFor (demo_proposal (2 ^ 53) 0 Pending (Some 8) None)
       + votesAgainst (demo_proposal (2 ^ 53) 0 Pending (Some 8) None)
       \<noteq> accepted_votes ''p1'' (replicate (2 ^ 53 + 1) (8, ''p1'', ''alice'', True))
        (demo_dao (demo_proposal 0 0 Pending None None))"
proof -
  have "cast_votes (replicate (2 ^ 53 + 1) (8, ''p1'', ''alice'', True))
      (demo_dao (demo_proposal 0 0 Pending None None))
    = demo_dao (demo_proposal (2 ^ 53) 0 Pending (Some 8) None)"
    using flood_cast [of 0 "2 ^ 53 + 1" None] by simp
  then show ?thesis
    by (simp add: flood_accepted demo_get demo_fields)
qed

subsection \<open>Creating proposals\<close>




text \<open>
  C8: for a proposer who is not a member, \<open>createProposal\<close> returns the members-only
  text as its result, and the state it returns is the state given: no record is created,
  and \<open>getAllProposals\<close> and its length are what they were.
\<close>

theorem createProposal_not_a_member:
  assumes "proposer' \<notin> members st"
  shows "createProposal uuid now proposer' title' description' st
           = (''Error: Only DAO members can create proposals'', st)
         \<and> getAllProposals (snd (createProposal uuid now proposer' title' description' st))
           = getAllProposals st
         \<and> length (getAllProposals (snd (createProposal uuid now proposer' title' description' st)))
           = length (getAllProposals st)"
  using assms by (simp add: createProposal_def)

theorem createProposal_not_a_member_witness:
  "''mallory'' \<notin> members (demo_dao (demo_proposal 0 0 Pending None None))
   \<and> createProposal ''p2'' 9 ''mallory'' ''T2'' ''D2'' (demo_dao (demo_proposal 0 0 Pending None None))
       = (''Error: Only DAO members can create proposals'',
          demo_dao (demo_proposal 0 0 Pending None None))
   \<and> length (getAllProposals (snd (createProposal ''p2'' 9 ''mallory'' ''T2'' ''D2''
        (demo_dao (demo_proposal 0 0 Pending None None))))) = 1"
  using createProposal_not_a_member [of "''mallory''" "demo_dao (demo_proposal 0 0 Pending None None)"
      "''p2''" 9 "''T2''" "''D2''"]
  by (simp add: demo_dao_def getAllProposals_def btree_values_def)

subsection \<open>Membership\<close>

text \<open>
  C10: the text that \<open>addMember\<close> returns and the state it leaves do not depend on its
  \<open>admin\<close> argument, and the text is always the confirmation, never an error.
\<close>

theorem addMember_ignores_admin:
  "addMember admin1 newMember st = addMember admin2 newMember st
   \<and> fst (addMember admin1 newMember st)
       = ''Member with address '' @ newMember @ '' has been added to the DAO''
   \<and> members (snd (addMember admin1 newMember st)) = insert newMember (members st)
   \<and> proposalStorage (snd (addMember admin1 newMember st)) = proposalStorage st"
  by (simp add: addMember_def)

end
